theory Spec2Isabelle
  imports Complex_Main "HOL-Library.Sublist"
begin

section \<open>Kenya car import cost calculator: the cost engine\<close>

text \<open>
  The functions of \<^verbatim>\<open>car_import_calculator.py\<close> that compute duties, levies and
  the grand total. Python numbers (the form hands over ints, the estimator a float) are
  modelled as exact rationals: every product and sum below is the mathematical one, so
  binary rounding of the Python floats is not part of the model. The vehicle age is the
  difference of two years, an integer. The integer constants of the source (fees, exchange
  rate) stay integers and are promoted where the source mixes them with other numbers.
\<close>

subsection \<open>Customs duty and the age gate\<close>

definition warning_over_8 :: string where
  "warning_over_8 = '' Vehicles over 8 years old cannot be imported into Kenya''"

definition warning_general :: string where
  "warning_general = '' Only vehicles 3 years old or newer can be imported''"

text \<open>
  \<^verbatim>\<open>calculate_customs_duty\<close> returns a pair: the duty and a warning or \<^verbatim>\<open>None\<close>.
\<close>

definition calculate_customs_duty :: "rat \<Rightarrow> int \<Rightarrow> rat \<times> string option" where
  "calculate_customs_duty cif_value vehicle_age =
     (if vehicle_age > 8 then (0, Some warning_over_8)
      else if vehicle_age \<le> 7 then (cif_value * 0.25, None)
      else (0, Some warning_general))"

subsection \<open>Excise duty\<close>

definition excise_rate_of :: "rat \<Rightarrow> rat" where
  "excise_rate_of engine_size =
     (if engine_size \<le> 1.5 then 0.20
      else if engine_size \<le> 2.0 then 0.25
      else if engine_size \<le> 2.5 then 0.30
      else 0.35)"

text \<open>The pair returned is the duty and the rate as a percentage.\<close>

definition calculate_excise_duty :: "rat \<Rightarrow> rat \<Rightarrow> rat \<times> rat" where
  "calculate_excise_duty cif_value engine_size =
     (let rate = excise_rate_of engine_size in (cif_value * rate, rate * 100))"

subsection \<open>VAT, declaration fee, railway levy\<close>

definition calculate_vat :: "rat \<Rightarrow> rat \<Rightarrow> rat \<Rightarrow> rat" where
  "calculate_vat cif_value customs_duty excise_duty =
     (let taxable_value = cif_value + customs_duty + excise_duty in taxable_value * 0.16)"

definition calculate_idf :: "rat \<Rightarrow> rat \<Rightarrow> rat" where
  "calculate_idf cif_value customs_duty = (cif_value + customs_duty) * 0.0225"

definition calculate_rail_levy :: "rat \<Rightarrow> rat" where
  "calculate_rail_levy cif_value = cif_value * 0.02"

subsection \<open>The whole computation\<close>

text \<open>The dictionary returned on success, one field for each key.\<close>

record costs =
  fob_value :: rat
  freight_cost :: rat
  insurance_cost :: rat
  cif_value :: rat
  customs_duty :: rat
  excise_duty :: rat
  excise_rate :: rat
  vat :: rat
  idf :: rat
  rail_levy :: rat
  total_statutory_taxes :: rat
  clearing_agent_fee :: int
  transport_to_nairobi :: int
  port_charges :: int
  inspection_fee :: int
  number_plate :: int
  total_other_fees :: int
  grand_total_kes :: rat
  exchange_rate :: int

text \<open>
  \<^verbatim>\<open>calculate_total_costs\<close> returns \<^verbatim>\<open>(None, warning)\<close> as soon as the customs
  duty step gives a warning, and \<^verbatim>\<open>(costs, None)\<close> otherwise. Both warnings are
  non-empty strings, so the test \<^verbatim>\<open>if warning:\<close> is the test for a warning being
  there.
\<close>

definition calculate_total_costs ::
  "rat \<Rightarrow> rat \<Rightarrow> rat \<Rightarrow> int \<Rightarrow> rat \<Rightarrow> costs option \<times> string option" where
  "calculate_total_costs fob freight insurance vehicle_age engine_size =
     (let cif = fob + insurance + freight;
          (customs, warning) = calculate_customs_duty cif vehicle_age
      in case warning of
           Some w \<Rightarrow> (None, Some w)
         | None \<Rightarrow>
            (let (excise, rate_pct) = calculate_excise_duty cif engine_size;
                 vat_v = calculate_vat cif customs excise;
                 idf_v = calculate_idf cif customs;
                 levy = calculate_rail_levy cif;
                 clearing = 25000;
                 transport = 15000;
                 port = 10000;
                 inspection = 8000;
                 plate = 3000;
                 rate = 129;
                 total_taxes = customs + excise + vat_v + idf_v + levy;
                 other = clearing + transport + port + inspection + plate;
                 grand = (cif * of_int rate) + (total_taxes * of_int rate) + of_int other
             in (Some \<lparr>fob_value = fob, freight_cost = freight, insurance_cost = insurance,
                       cif_value = cif, customs_duty = customs, excise_duty = excise,
                       excise_rate = rate_pct, vat = vat_v, idf = idf_v, rail_levy = levy,
                       total_statutory_taxes = total_taxes, clearing_agent_fee = clearing,
                       transport_to_nairobi = transport, port_charges = port,
                       inspection_fee = inspection, number_plate = plate,
                       total_other_fees = other, grand_total_kes = grand,
                       exchange_rate = rate\<rparr>, None)))"

section \<open>The CRSP reference table\<close>

text \<open>
  The reference table is a pandas data frame: a list of column headers and rows of cells.
  Headers and queries are taken to be ASCII text. A cell is a string or is missing (NaN);
  \<^verbatim>\<open>.str.upper()\<close> turns whatever is not a string into a missing value, so
  \<^verbatim>\<open>None\<close> stands for both. A data frame is rectangular; should a row be shorter
  than the header list, the cells it lacks count as missing.
\<close>

record data_frame =
  columns :: "string list"
  rows :: "string option list list"

subsection \<open>Python's string operations\<close>

text \<open>
  The characters that \<^verbatim>\<open>str.strip()\<close> removes and that \<^verbatim>\<open>\s\<close> matches: tab, line
  feed, vertical tab, form feed, carriage return, the four separators 28 to 31, and the
  space.
\<close>

definition is_space :: "char \<Rightarrow> bool" where
  "is_space c = (let n = (of_char c :: nat) in (9 \<le> n \<and> n \<le> 13) \<or> (28 \<le> n \<and> n \<le> 32))"

definition upper_char :: "char \<Rightarrow> char" where
  "upper_char c =
     (let n = (of_char c :: nat) in if 97 \<le> n \<and> n \<le> 122 then char_of (n - 32) else c)"

definition upper :: "string \<Rightarrow> string" where
  "upper s = map upper_char s"

definition strip :: "string \<Rightarrow> string" where
  "strip s = rev (dropWhile is_space (rev (dropWhile is_space s)))"

text \<open>\<^verbatim>\<open>re.sub(r'\s+', ' ', s)\<close>: every maximal run of white space becomes one space.\<close>

function collapse_spaces :: "string \<Rightarrow> string" where
  "collapse_spaces [] = []"
| "collapse_spaces (c # cs) =
     (if is_space c then CHR '' '' # collapse_spaces (dropWhile is_space cs)
      else c # collapse_spaces cs)"
  by pat_completeness auto
termination
  by (relation "measure length") (auto simp: le_imp_less_Suc length_dropWhile_le)

subsection \<open>Loading the table\<close>

text \<open>
  The header pipeline of \<^verbatim>\<open>load_crsp_file\<close>: strip, remove the double quotes,
  collapse white space, upper-case.
\<close>

definition normalize_header :: "string \<Rightarrow> string" where
  "normalize_header h = upper (collapse_spaces (filter (\<lambda>c. c \<noteq> CHR 0x22) (strip h)))"

text \<open>The body of the loop that builds \<^verbatim>\<open>column_mapping\<close>.\<close>

definition mapping_step :: "string \<Rightarrow> (string \<rightharpoonup> string) \<Rightarrow> (string \<rightharpoonup> string)" where
  "mapping_step col m =
     (if upper col = ''MAKE'' then m(col \<mapsto> ''MAKE'')
      else if upper col = ''MODEL'' \<and> \<not> sublist ''NUMBER'' (upper col)
           then m(col \<mapsto> ''MODEL'')
      else m)"

text \<open>\<^verbatim>\<open>df.rename(columns=column_mapping)\<close>: a header without an entry stays.\<close>

definition rename_columns :: "(string \<rightharpoonup> string) \<Rightarrow> string list \<Rightarrow> string list" where
  "rename_columns column_mapping cols =
     map (\<lambda>col. case column_mapping col of Some new \<Rightarrow> new | None \<Rightarrow> col) cols"

text \<open>
  \<^verbatim>\<open>load_crsp_file\<close> returns the data frame, or \<^verbatim>\<open>None\<close> when the required
  columns are not found. The messages it shows on the page are not modelled. With string
  headers nothing in the body raises, so the \<^verbatim>\<open>except\<close> branch is not reached.
\<close>

definition load_crsp_file :: "data_frame \<Rightarrow> data_frame option" where
  "load_crsp_file df =
     (let cols = map normalize_header (columns df);
          has_make = list_ex (\<lambda>col. sublist ''MAKE'' (upper col)) cols;
          has_model = list_ex (\<lambda>col. sublist ''MODEL'' (upper col) \<and>
                                        \<not> sublist ''NUMBER'' (upper col)) cols
      in if has_make \<and> has_model then
           (let column_mapping = fold mapping_step cols Map.empty
            in Some (df\<lparr>columns := rename_columns column_mapping cols\<rparr>))
         else None)"

subsection \<open>Searching the table\<close>

text \<open>
  What can go wrong in \<^verbatim>\<open>search_crsp\<close>, which catches nothing: a column that is not
  there (\<^verbatim>\<open>KeyError\<close>), and a header that occurs more than once, for which
  \<^verbatim>\<open>crsp_data[name]\<close> is a data frame and has no \<^verbatim>\<open>.str\<close>
  (\<^verbatim>\<open>AttributeError\<close>). \<open>RegexNotModelled\<close> is not an error of Python: it marks
  a query that uses regular expression syntax which this theory does not interpret.
\<close>

datatype py_error = KeyError string | AttributeError | RegexNotModelled

definition positions :: "string list \<Rightarrow> string \<Rightarrow> nat list" where
  "positions cols name = filter (\<lambda>i. cols ! i = name) [0..<length cols]"

definition cell_at :: "string option list \<Rightarrow> nat \<Rightarrow> string option" where
  "cell_at r i = (if i < length r then r ! i else None)"

text \<open>\<^verbatim>\<open>crsp_data[name].str\<close>: the column as a series of strings.\<close>

definition column_str :: "data_frame \<Rightarrow> string \<Rightarrow> py_error + string option list" where
  "column_str df name =
     (case positions (columns df) name of
        [] \<Rightarrow> Inl (KeyError name)
      | [i] \<Rightarrow> Inr (map (\<lambda>r. cell_at r i) (rows df))
      | _ \<Rightarrow> Inl AttributeError)"

definition str_upper :: "string option list \<Rightarrow> string option list" where
  "str_upper col = map (map_option upper) col"

text \<open>
  \<^verbatim>\<open>.str.contains(pat, na=False)\<close> searches each string for a match of the regular
  expression \<^verbatim>\<open>pat\<close> (pandas' default is \<^verbatim>\<open>regex=True\<close>); a missing value gives
  \<^verbatim>\<open>False\<close>. The expressions interpreted here are the sequences of literal
  characters and dots: a literal matches itself, a dot matches every character but the
  line feed.
\<close>

definition regex_special :: "char \<Rightarrow> bool" where
  "regex_special c = (c \<in> set (''.^$*+?{}[]|()'' @ [CHR 0x5C]))"

definition char_matches :: "char \<Rightarrow> char \<Rightarrow> bool" where
  "char_matches p c = (if p = CHR ''.'' then c \<noteq> CHR 0x0A else p = c)"

fun match_here :: "string \<Rightarrow> string \<Rightarrow> bool" where
  "match_here [] s = True"
| "match_here (p # ps) [] = False"
| "match_here (p # ps) (c # cs) = (char_matches p c \<and> match_here ps cs)"

fun re_search :: "string \<Rightarrow> string \<Rightarrow> bool" where
  "re_search pat [] = match_here pat []"
| "re_search pat (c # cs) = (match_here pat (c # cs) \<or> re_search pat cs)"

definition str_contains :: "string \<Rightarrow> string option list \<Rightarrow> py_error + bool list" where
  "str_contains pat col =
     (if list_ex (\<lambda>c. regex_special c \<and> c \<noteq> CHR ''.'') pat then Inl RegexNotModelled
      else Inr (map (\<lambda>cell. case cell of None \<Rightarrow> False | Some s \<Rightarrow> re_search pat s) col))"

text \<open>
  \<^verbatim>\<open>search_crsp\<close>: the two masks are computed in the order of the source, combined
  with \<^verbatim>\<open>&\<close>, and the rows whose mask entry is true are returned as records.
\<close>

definition search_crsp ::
  "string \<Rightarrow> string \<Rightarrow> data_frame option \<Rightarrow> py_error + string option list list" where
  "search_crsp make_q model_q crsp_data =
     (case crsp_data of
        None \<Rightarrow> Inr []
      | Some df \<Rightarrow>
          (let make' = strip (upper make_q);
               model' = strip (upper model_q)
           in case column_str df ''MAKE'' of Inl e \<Rightarrow> Inl e | Inr make_col \<Rightarrow>
              (case str_contains make' (str_upper make_col) of Inl e \<Rightarrow> Inl e | Inr mask1 \<Rightarrow>
              (case column_str df ''MODEL'' of Inl e \<Rightarrow> Inl e | Inr model_col \<Rightarrow>
              (case str_contains model' (str_upper model_col) of Inl e \<Rightarrow> Inl e | Inr mask2 \<Rightarrow>
                 Inr (map fst (filter (\<lambda>(r, keep). keep)
                        (zip (rows df) (map (\<lambda>(a, b). a \<and> b) (zip mask1 mask2))))))))))"

subsection \<open>The matching rule in the words of the specification\<close>





section \<open>Properties of the cost engine\<close>

lemmas cost_defs = calculate_total_costs_def calculate_customs_duty_def
  calculate_excise_duty_def excise_rate_of_def calculate_vat_def calculate_idf_def
  calculate_rail_levy_def




subsection \<open>The worked example\<close>

text \<open>
  C1, as the code computes it. For FOB 15000, freight 1200, insurance 300, engine 2.0 l and
  age 4 the breakdown has CIF 16500, customs duty 4125, excise duty 4125 (the 25 per cent
  tier), declaration fee 464.0625 and railway levy 330, but the VAT is
  0.16 * (16500 + 4125 + 4125) = 3960 and the statutory taxes add up to 13004.0625.
\<close>

theorem end_to_end_example:
  "calculate_total_costs 15000 1200 300 4 2.0 =
     (Some \<lparr>fob_value = 15000, freight_cost = 1200, insurance_cost = 300,
             cif_value = 16500, customs_duty = 4125, excise_duty = 4125,
             excise_rate = 25, vat = 3960, idf = 464.0625, rail_levy = 330,
             total_statutory_taxes = 13004.0625, clearing_agent_fee = 25000,
             transport_to_nairobi = 15000, port_charges = 10000,
             inspection_fee = 8000, number_plate = 3000, total_other_fees = 61000,
             grand_total_kes = 3867024.0625, exchange_rate = 129\<rparr>, None)"
  by (simp add: cost_defs Let_def)

text \<open>
  C1, as stated: a VAT of 3798.00 and statutory taxes of 12842.0625 are not what the
  breakdown holds for this input.
\<close>

theorem end_to_end_spec_values_counterexample:
  "map_option vat (fst (calculate_total_costs 15000 1200 300 4 2.0)) \<noteq> Some 3798.00 \<and>
   map_option total_statutory_taxes (fst (calculate_total_costs 15000 1200 300 4 2.0))
     \<noteq> Some 12842.0625"
  by (simp add: cost_defs Let_def)

subsection \<open>No validation of the inputs\<close>

text \<open>
  C2, as the code behaves. \<^verbatim>\<open>calculate_total_costs\<close> tests nothing but the age
  against its upper limits: for every age of at most 7, a negative one included, and for
  any monetary values and engine size, non-positive ones included, it returns a breakdown
  and no warning. The breakdown holds the inputs as they were given (nothing is clamped),
  the CIF value is their sum and the excise duty is that sum times the rate of the tier.
\<close>

theorem no_input_validation:
  "vehicle_age \<le> 7 \<Longrightarrow>
     snd (calculate_total_costs fob freight insurance vehicle_age engine_size) = None \<and>
     map_option fob_value (fst (calculate_total_costs fob freight insurance vehicle_age engine_size))
       = Some fob \<and>
     map_option freight_cost (fst (calculate_total_costs fob freight insurance vehicle_age engine_size))
       = Some freight \<and>
     map_option insurance_cost (fst (calculate_total_costs fob freight insurance vehicle_age engine_size))
       = Some insurance \<and>
     map_option cif_value (fst (calculate_total_costs fob freight insurance vehicle_age engine_size))
       = Some (fob + insurance + freight) \<and>
     map_option excise_duty (fst (calculate_total_costs fob freight insurance vehicle_age engine_size))
       = Some ((fob + insurance + freight) * excise_rate_of engine_size)"
  by (simp add: cost_defs Let_def)

theorem no_input_validation_witness:
  "(- 3 :: int) \<le> 7 \<and>
     snd (calculate_total_costs (- 5) 0 (- 1) (- 3) 0) = None \<and>
     map_option fob_value (fst (calculate_total_costs (- 5) 0 (- 1) (- 3) 0)) = Some (- 5) \<and>
     map_option cif_value (fst (calculate_total_costs (- 5) 0 (- 1) (- 3) 0)) = Some (- 6)"
  using no_input_validation [of "- 3" "- 5" 0 "- 1" 0] by simp

text \<open>
  C2, as stated, fails: a negative age, and negative or zero monetary values with a zero
  engine size, each get a breakdown and no refusal.
\<close>

theorem invalid_input_counterexample:
  "fst (calculate_total_costs 15000 1200 300 (- 1) 2.0) \<noteq> None \<and>
   snd (calculate_total_costs 15000 1200 300 (- 1) 2.0) = None \<and>
   fst (calculate_total_costs (- 15000) 0 (- 300) 4 0) \<noteq> None \<and>
   snd (calculate_total_costs (- 15000) 0 (- 300) 4 0) = None"
  by (simp add: cost_defs Let_def)

subsection \<open>The age gate\<close>

text \<open>
  C4. The customs duty step is the eligibility check: an age above 8 is rejected with the
  warning about vehicles over 8 years old, an age of at most 7 is eligible and the duty is
  25 per cent of the CIF value, and the age 8 is rejected with the second, general
  warning. The two warnings differ.
\<close>

theorem customs_duty_gate:
  "(vehicle_age > 8 \<longrightarrow> calculate_customs_duty cif vehicle_age = (0, Some warning_over_8)) \<and>
   (vehicle_age \<le> 7 \<longrightarrow> calculate_customs_duty cif vehicle_age = (cif * 0.25, None)) \<and>
   (vehicle_age = 8 \<longrightarrow> calculate_customs_duty cif vehicle_age = (0, Some warning_general)) \<and>
   warning_over_8 \<noteq> warning_general"
  by (simp add: calculate_customs_duty_def warning_over_8_def warning_general_def)

theorem customs_duty_gate_witness:
  "calculate_customs_duty 16500 9 = (0, Some warning_over_8) \<and>
   calculate_customs_duty 16500 0 = (4125, None) \<and>
   calculate_customs_duty 16500 8 = (0, Some warning_general)"
  using customs_duty_gate [of 9 16500] customs_duty_gate [of 0 16500]
    customs_duty_gate [of 8 16500]
  by simp

subsection \<open>Excise tiers\<close>



subsection \<open>Totals\<close>



subsection \<open>Rejection\<close>

text \<open>
  C7. For every age of 8 or more the result is the warning alone, with no breakdown,
  whatever the other inputs are: none of the later steps contributes to it. And for every
  input exactly one of the two components of the result is there.
\<close>

theorem rejected_no_breakdown:
  "(8 \<le> vehicle_age \<longrightarrow>
      calculate_total_costs fob freight insurance vehicle_age engine_size =
        (None, Some (if 8 < vehicle_age then warning_over_8 else warning_general))) \<and>
   ((fst (calculate_total_costs fob freight insurance vehicle_age engine_size) = None)
      \<noteq> (snd (calculate_total_costs fob freight insurance vehicle_age engine_size) = None))"
  by (simp add: cost_defs Let_def)

theorem rejected_no_breakdown_witness:
  "calculate_total_costs 15000 1200 300 9 2.0 = (None, Some warning_over_8) \<and>
   calculate_total_costs 15000 1200 300 8 2.0 = (None, Some warning_general)"
  using rejected_no_breakdown [of 9 15000 1200 300 "2.0"]
    rejected_no_breakdown [of 8 15000 1200 300 "2.0"]
  by simp

subsection \<open>Monotonicity in the FOB value\<close>



section \<open>Properties of the reference table functions\<close>

subsection \<open>Plain queries are substring tests\<close>









subsection \<open>Search\<close>






subsection \<open>Loading never renames\<close>

lemma upper_char_idem: "upper_char (upper_char c) = upper_char c"
  by (auto simp: upper_char_def Let_def)

lemma upper_idem: "upper (upper s) = upper s"
  by (simp add: upper_def upper_char_idem)

lemma upper_normalize_header: "upper (normalize_header h) = normalize_header h"
  by (simp add: normalize_header_def upper_idem)

text \<open>Every entry of the column mapping sends a header to its own upper-case form.\<close>

lemma fold_mapping_upper:
  assumes "\<And>c n. m c = Some n \<Longrightarrow> n = upper c"
  shows "fold mapping_step cols m c = Some n \<Longrightarrow> n = upper c"
  using assms
proof (induction cols arbitrary: m)
  case Nil
  then show ?case by simp
next
  case (Cons col cols)
  have "\<And>c n. mapping_step col m c = Some n \<Longrightarrow> n = upper c"
    using Cons.prems(2) by (auto simp: mapping_step_def split: if_splits)
  with Cons.IH [of "mapping_step col m"] Cons.prems(1) show ?case by simp
qed

lemma rename_columns_fixed:
  assumes "\<And>c n. m c = Some n \<Longrightarrow> n = upper c" and "\<And>c. c \<in> set cols \<Longrightarrow> upper c = c"
  shows "rename_columns m cols = cols"
proof -
  have "(case m c of Some new \<Rightarrow> new | None \<Rightarrow> c) = c" if "c \<in> set cols" for c
    using assms(1) [of c] assms(2) [OF that] by (cases "m c") simp_all
  then show ?thesis
    unfolding rename_columns_def by (intro map_idI) simp
qed

text \<open>
  The table is accepted when some normalized header contains \<open>MAKE\<close> and some
  normalized header contains \<open>MODEL\<close> and not \<open>NUMBER\<close>; the table returned then has
  the normalized headers, none of them renamed, and the rows as they were.
\<close>

lemma load_crsp_file_accepts:
  "load_crsp_file df \<noteq> None \<longleftrightarrow>
     (\<exists>h \<in> set (columns df). sublist ''MAKE'' (normalize_header h)) \<and>
     (\<exists>h \<in> set (columns df). sublist ''MODEL'' (normalize_header h) \<and>
                               \<not> sublist ''NUMBER'' (normalize_header h))"
  by (auto simp: load_crsp_file_def Let_def list_ex_iff upper_normalize_header)

lemma load_crsp_file_result:
  assumes "load_crsp_file df = Some df'"
  shows "df' = df\<lparr>columns := map normalize_header (columns df)\<rparr>"
proof -
  let ?cols = "map normalize_header (columns df)"
  have fixed: "\<And>c. c \<in> set ?cols \<Longrightarrow> upper c = c"
    by (auto simp: upper_normalize_header)
  have "rename_columns (fold mapping_step ?cols Map.empty) ?cols = ?cols"
    by (rule rename_columns_fixed [OF fold_mapping_upper fixed]) simp_all
  then show ?thesis
    using assms by (auto simp: load_crsp_file_def Let_def split: if_splits)
qed

text \<open>
  C3, on the code. The headers \<open>Make\<close> and \<open>Model Name\<close> pass the check for the
  required columns, the second as the model column (it contains \<open>MODEL\<close> and not
  \<open>NUMBER\<close>), but the table returned still calls that column \<open>MODEL NAME\<close>: the
  renaming loop only considers a header that is \<open>MODEL\<close> already. A search on the
  loaded table then fails for want of a \<open>MODEL\<close> column. Likewise the headers
  \<open>Car Maker\<close> and \<open>Model\<close> are accepted, though no header is \<open>MAKE\<close>, and no
  column of the result is called \<open>MAKE\<close>.
\<close>

theorem load_crsp_file_rename_example:
  "load_crsp_file \<lparr>columns = [''Make'', ''Model Name''],
                    rows = [[Some ''Toyota'', Some ''Harrier'']]\<rparr>
     = Some \<lparr>columns = [''MAKE'', ''MODEL NAME''],
              rows = [[Some ''Toyota'', Some ''Harrier'']]\<rparr> \<and>
   search_crsp ''Toyota'' ''Harrier''
     (load_crsp_file \<lparr>columns = [''Make'', ''Model Name''],
                       rows = [[Some ''Toyota'', Some ''Harrier'']]\<rparr>)
     = Inl (KeyError ''MODEL'') \<and>
   load_crsp_file \<lparr>columns = [''Car Maker'', ''Model''],
                    rows = [[Some ''Toyota'', Some ''Harrier'']]\<rparr>
     = Some \<lparr>columns = [''CAR MAKER'', ''MODEL''],
              rows = [[Some ''Toyota'', Some ''Harrier'']]\<rparr>"
  by code_simp

end
